theory Spec2Isabelle
  imports Main
begin

section \<open>The outside world of the notebook\<close>

text \<open>
  The notebook \<^verbatim>\<open>Part II - Uploading and Sharing Models on Hugging Face Hub with Intel
  Optimizations.ipynb\<close> is a straight line of calls into \<^verbatim>\<open>huggingface_hub\<close>,
  \<^verbatim>\<open>transformers\<close> and the Python file API. None of these libraries belongs to the
  repository, so their behaviour is a parameter: a record of operations, each of which takes
  the current world, may change it in any way, and either returns a value or raises.
  Only the local files are given a concrete shape, because the notebook writes one itself.
\<close>

type_synonym path = string

record 'x world =
  files :: "path \<rightharpoonup> string"
  outside :: 'x

text \<open>An external operation: result (\<open>Inl\<close> is the exception raised) and the world it leaves.\<close>

type_synonym ('e, 'a, 'x) op = "'x world \<Rightarrow> ('e + 'a) \<times> 'x world"

text \<open>
  The imported names, as the notebook uses them. \<open>'e\<close> is the type of exceptions,
  \<open>'m\<close> of loaded models, \<open>'t\<close> of tokenizers and \<open>'r\<close> of \<^verbatim>\<open>Repository\<close> objects; the
  notebook never looks inside any of them. \<open>open_error\<close> and \<open>write_error\<close> say when the
  operating system refuses \<^verbatim>\<open>open(p, "w")\<close> or the write to the opened file.
\<close>

record ('e, 'm, 't, 'r, 'x) lib =
  notebook_login :: "('e, unit, 'x) op"
  model_from_pretrained :: "string \<Rightarrow> ('e, 'm, 'x) op"
  tokenizer_from_pretrained :: "string \<Rightarrow> ('e, 't, 'x) op"
  model_save_pretrained :: "'m \<Rightarrow> path \<Rightarrow> ('e, unit, 'x) op"
  tokenizer_save_pretrained :: "'t \<Rightarrow> path \<Rightarrow> ('e, unit, 'x) op"
  model_push_to_hub :: "'m \<Rightarrow> string \<Rightarrow> ('e, unit, 'x) op"
  tokenizer_push_to_hub :: "'t \<Rightarrow> string \<Rightarrow> ('e, unit, 'x) op"
  open_error :: "path \<Rightarrow> 'x world \<Rightarrow> 'e option"
  write_error :: "path \<Rightarrow> string \<Rightarrow> 'x world \<Rightarrow> 'e option"
  Repository :: "path \<Rightarrow> string \<Rightarrow> ('e, 'r, 'x) op"
  repo_push_to_hub :: "'r \<Rightarrow> string \<Rightarrow> ('e, unit, 'x) op"

section \<open>Recording what the notebook calls\<close>

text \<open>One constructor for each call site of the notebook, with the arguments passed.\<close>

datatype ('m, 't, 'r) call =
    NotebookLogin
  | ModelFromPretrained string
  | TokenizerFromPretrained string
  | ModelSavePretrained 'm path
  | TokenizerSavePretrained 't path
  | ModelPushToHub 'm string
  | TokenizerPushToHub 't string
  | Open path string
  | FileWrite path string
  | RepositoryInit path string
  | RepoPushToHub 'r string

text \<open>An event is a call, the exception it raised (if any) and the world right after it.\<close>

record ('e, 'm, 't, 'r, 'x) event =
  invoked :: "('m, 't, 'r) call"
  exc :: "'e option"
  post :: "'x world"

record ('e, 'm, 't, 'r, 'x) state =
  now :: "'x world"
  trace :: "('e, 'm, 't, 'r, 'x) event list"

type_synonym ('e, 'm, 't, 'r, 'x, 'a) prog =
  "('e, 'm, 't, 'r, 'x) state \<Rightarrow> ('e + 'a) \<times> ('e, 'm, 't, 'r, 'x) state"

definition exc_of :: "'e + 'a \<Rightarrow> 'e option" where
  "exc_of r = (case r of Inl e \<Rightarrow> Some e | Inr _ \<Rightarrow> None)"

text \<open>Perform one external call on the current world and append it to the trace.\<close>

definition invoke ::
  "('m, 't, 'r) call \<Rightarrow> ('e, 'a, 'x) op \<Rightarrow> ('e, 'm, 't, 'r, 'x, 'a) prog" where
  "invoke c f s =
     (case f (now s) of (r, w) \<Rightarrow>
        (r, \<lparr>now = w, trace = trace s @ [\<lparr>invoked = c, exc = exc_of r, post = w\<rparr>]\<rparr>))"

text \<open>
  Statement sequencing. Python has no handler anywhere in the notebook, so an exception
  ends the run: the statements after it are not executed.
\<close>

definition then_do ::
  "('e, 'm, 't, 'r, 'x, 'a) prog \<Rightarrow> ('a \<Rightarrow> ('e, 'm, 't, 'r, 'x, 'b) prog)
     \<Rightarrow> ('e, 'm, 't, 'r, 'x, 'b) prog" where
  "then_do p k s = (case p s of (Inl e, s') \<Rightarrow> (Inl e, s') | (Inr a, s') \<Rightarrow> k a s')"

definition done_with :: "'a \<Rightarrow> ('e, 'm, 't, 'r, 'x, 'a) prog" where
  "done_with a s = (Inr a, s)"

subsection \<open>The Python file API, as far as the notebook uses it\<close>

text \<open>
  \<^verbatim>\<open>open(p, "w")\<close>: unless the system refuses, the file is created or truncated to
  empty; the handle is represented by the path.
\<close>

definition open_w :: "('e, 'm, 't, 'r, 'x) lib \<Rightarrow> path \<Rightarrow> ('e, 'm, 't, 'r, 'x, path) prog" where
  "open_w L p =
     invoke (Open p ''w'')
       (\<lambda>w. case open_error L p w of
               Some e \<Rightarrow> (Inl e, w)
             | None \<Rightarrow> (Inr p, w\<lparr>files := (files w)(p \<mapsto> [])\<rparr>))"

text \<open>\<^verbatim>\<open>file.write(s)\<close> on a handle: the text goes to the end of the file.\<close>

definition file_write ::
  "('e, 'm, 't, 'r, 'x) lib \<Rightarrow> path \<Rightarrow> string \<Rightarrow> ('e, 'm, 't, 'r, 'x, unit) prog" where
  "file_write L p s =
     invoke (FileWrite p s)
       (\<lambda>w. case write_error L p s w of
               Some e \<Rightarrow> (Inl e, w)
             | None \<Rightarrow>
                 (Inr (), w\<lparr>files := (files w)(p \<mapsto> (case files w p of None \<Rightarrow> [] | Some old \<Rightarrow> old) @ s)\<rparr>))"

section \<open>The notebook, cell by cell\<close>

definition checkpoint_path :: string where
  "checkpoint_path = ''./results/checkpoint-2000''"

definition model_name_on_hub :: string where
  "model_name_on_hub = ''desired-model-name''"

text \<open>Cell 1: \<^verbatim>\<open>notebook_login()\<close>.\<close>

definition cell_login :: "('e, 'm, 't, 'r, 'x) lib \<Rightarrow> ('e, 'm, 't, 'r, 'x, unit) prog" where
  "cell_login L = invoke NotebookLogin (notebook_login L)"

text \<open>Cell 2: load the model from the checkpoint, the tokenizer from the base identifier.\<close>

definition cell_load ::
  "('e, 'm, 't, 'r, 'x) lib \<Rightarrow> string \<Rightarrow> ('e, 'm, 't, 'r, 'x, 'm \<times> 't) prog" where
  "cell_load L cp =
     then_do (invoke (ModelFromPretrained cp) (model_from_pretrained L cp)) (\<lambda>model.
     then_do (invoke (TokenizerFromPretrained ''distilbert-base-uncased'')
                (tokenizer_from_pretrained L ''distilbert-base-uncased'')) (\<lambda>tokenizer.
     done_with (model, tokenizer)))"

text \<open>Cell 3: save both under the chosen name, then push both under it.\<close>

definition cell_save_push ::
  "('e, 'm, 't, 'r, 'x) lib \<Rightarrow> 'm \<Rightarrow> 't \<Rightarrow> string \<Rightarrow> ('e, 'm, 't, 'r, 'x, unit) prog" where
  "cell_save_push L model tokenizer name =
     then_do (invoke (ModelSavePretrained model name) (model_save_pretrained L model name)) (\<lambda>_.
     then_do (invoke (TokenizerSavePretrained tokenizer name)
                (tokenizer_save_pretrained L tokenizer name)) (\<lambda>_.
     then_do (invoke (ModelPushToHub model name) (model_push_to_hub L model name)) (\<lambda>_.
     invoke (TokenizerPushToHub tokenizer name) (tokenizer_push_to_hub L tokenizer name))))"

text \<open>Cell 4: the template, a triple-quoted literal; every source line ends in a newline.\<close>

definition model_card_lines :: "string list" where
  "model_card_lines =
    ['''',
     ''# Model Card for My Fine-Tuned Model'',
     '''',
     ''## Model Description'',
     ''- **Purpose**: [Describe the purpose of your model. What task does it perform?]'',
     ''- **Model architecture**: [Specify the architecture, e.g., BERT, GPT-2, etc.]'',
     ''- **Training data**: [Briefly describe the dataset used for training. Include any data cleaning or preprocessing steps.]'',
     '''',
     ''## Intended Use'',
     ''- **Intended users**: [Who are the intended users of the model?]'',
     ''- **Use cases**: [Describe potential use cases for the model.]'',
     '''',
     ''## Limitations'',
     ''- **Known limitations**: [Mention any known limitations of the model.]'',
     '''',
     ''## Hardware '',
     ''- **Training Platform**: [Describe details about the systems and platform used to train the model.]'',
     '''',
     ''## Software Optimizations'',
     ''- **Known Optimizations**: [Describe details about any optimizations used during training.]'',
     '''',
     ''## Ethical Considerations'',
     ''- **Ethical concerns**: [Discuss any ethical concerns related to the use of your model.]'',
     '''',
     ''## More Information'',
     ''- [Include any additional information, links, or references.]'',
     '''']"

definition model_card_content :: string where
  "model_card_content = concat (map (\<lambda>l. l @ [CHR 0x0A]) model_card_lines)"

text \<open>
  Cell 5, first half: write the card to \<^verbatim>\<open>f"{model_name_on_hub}/README.md"\<close>. Leaving the
  \<^verbatim>\<open>with\<close> block closes the file, which changes nothing in this model.
\<close>

definition write_model_card ::
  "('e, 'm, 't, 'r, 'x) lib \<Rightarrow> string \<Rightarrow> ('e, 'm, 't, 'r, 'x, unit) prog" where
  "write_model_card L name =
     (let model_card_filename = name @ ''/README.md'' in
      then_do (open_w L model_card_filename) (\<lambda>file.
      file_write L file model_card_content))"

text \<open>
  Cell 5, second half: \<^verbatim>\<open>Repository(model_name_on_hub, clone_from=model_name_on_hub)\<close>, then
  push it with the commit message.
\<close>

definition cell_card ::
  "('e, 'm, 't, 'r, 'x) lib \<Rightarrow> string \<Rightarrow> ('e, 'm, 't, 'r, 'x, unit) prog" where
  "cell_card L name =
     then_do (write_model_card L name) (\<lambda>_.
     then_do (invoke (RepositoryInit name name) (Repository L name name)) (\<lambda>repo.
     invoke (RepoPushToHub repo ''Add model card'') (repo_push_to_hub L repo ''Add model card'')))"

text \<open>All cells in order, for any checkpoint path and any chosen name.\<close>

definition notebook_with ::
  "('e, 'm, 't, 'r, 'x) lib \<Rightarrow> string \<Rightarrow> string \<Rightarrow> ('e, 'm, 't, 'r, 'x, unit) prog" where
  "notebook_with L cp name =
     then_do (cell_login L) (\<lambda>_.
     then_do (cell_load L cp) (\<lambda>(model, tokenizer).
     then_do (cell_save_push L model tokenizer name) (\<lambda>_.
     cell_card L name)))"

text \<open>A run of the notebook as it stands, from an initial world and an empty trace.\<close>

definition run_with ::
  "('e, 'm, 't, 'r, 'x) lib \<Rightarrow> string \<Rightarrow> string \<Rightarrow> 'x world
     \<Rightarrow> ('e + unit) \<times> ('e, 'm, 't, 'r, 'x) state" where
  "run_with L cp name w = notebook_with L cp name \<lparr>now = w, trace = []\<rparr>"

definition run ::
  "('e, 'm, 't, 'r, 'x) lib \<Rightarrow> 'x world \<Rightarrow> ('e + unit) \<times> ('e, 'm, 't, 'r, 'x) state" where
  "run L w = run_with L checkpoint_path model_name_on_hub w"

section \<open>Observing a run\<close>

definition calls ::
  "('e + 'a) \<times> ('e, 'm, 't, 'r, 'x) state \<Rightarrow> ('m, 't, 'r) call list" where
  "calls r = map invoked (trace (snd r))"

text \<open>The exception that ended the run, if one did.\<close>

definition raised :: "('e + 'a) \<times> ('e, 'm, 't, 'r, 'x) state \<Rightarrow> 'e option" where
  "raised r = exc_of (fst r)"

fun is_upload :: "('m, 't, 'r) call \<Rightarrow> bool" where
  "is_upload (ModelPushToHub _ _) = True"
| "is_upload (TokenizerPushToHub _ _) = True"
| "is_upload (RepoPushToHub _ _) = True"
| "is_upload _ = False"

definition uploads ::
  "('e + 'a) \<times> ('e, 'm, 't, 'r, 'x) state \<Rightarrow> ('m, 't, 'r) call list" where
  "uploads r = filter is_upload (calls r)"

fun is_save :: "('m, 't, 'r) call \<Rightarrow> bool" where
  "is_save (ModelSavePretrained _ _) = True"
| "is_save (TokenizerSavePretrained _ _) = True"
| "is_save (Open _ _) = True"
| "is_save (FileWrite _ _) = True"
| "is_save _ = False"


text \<open>
  \<open>returned_before a b tr\<close>: in \<open>tr\<close> the call \<open>a\<close> has returned normally at some point, and
  \<open>b\<close> is invoked later.
\<close>

fun returned_before ::
  "('m, 't, 'r) call \<Rightarrow> ('m, 't, 'r) call \<Rightarrow> ('e, 'm, 't, 'r, 'x) event list \<Rightarrow> bool" where
  "returned_before a b [] = False"
| "returned_before a b (e # tr) =
     (if invoked e = a \<and> exc e = None then b \<in> set (map invoked tr)
      else returned_before a b tr)"

subsection \<open>Reading the card as markdown\<close>

text \<open>The lines of a text, and its second-level headers: the lines that start with \<^verbatim>\<open>## \<close>.\<close>

primrec lines_from :: "string \<Rightarrow> string \<Rightarrow> string list" where
  "lines_from cur [] = (if cur = [] then [] else [cur])"
| "lines_from cur (c # cs) =
     (if c = CHR 0x0A then cur # lines_from [] cs else lines_from (cur @ [c]) cs)"

definition lines_of :: "string \<Rightarrow> string list" where
  "lines_of s = lines_from [] s"

definition section_headers :: "string \<Rightarrow> string list" where
  "section_headers s = map (drop 3) (filter (\<lambda>l. take 3 l = ''## '') (lines_of s))"

section \<open>Stand-in libraries for concrete runs\<close>

text \<open>
  A small library to run the notebook against: the model is \<open>7\<close>, the tokenizer \<open>3\<close>, the
  repository object \<open>1\<close>; saving writes one file into the directory, pushing notes the name on
  the hub (the \<open>outside\<close> of the world). \<open>broken\<close> chooses the calls that raise.
\<close>

definition answer ::
  "(('m, 't, 'r) call \<Rightarrow> 'e option) \<Rightarrow> ('m, 't, 'r) call \<Rightarrow> 'a \<Rightarrow> ('x world \<Rightarrow> 'x world)
     \<Rightarrow> ('e, 'a, 'x) op" where
  "answer broken c v f w = (case broken c of Some e \<Rightarrow> (Inl e, w) | None \<Rightarrow> (Inr v, f w))"

definition put_file :: "path \<Rightarrow> string \<Rightarrow> 'x world \<Rightarrow> 'x world" where
  "put_file p s w = w\<lparr>files := (files w)(p \<mapsto> s)\<rparr>"

definition note_push :: "string \<Rightarrow> string list world \<Rightarrow> string list world" where
  "note_push n w = w\<lparr>outside := outside w @ [n]\<rparr>"

definition stub ::
  "((nat, nat, nat) call \<Rightarrow> string option) \<Rightarrow> (string, nat, nat, nat, string list) lib" where
  "stub broken =
     \<lparr>notebook_login = answer broken NotebookLogin () id,
      model_from_pretrained = (\<lambda>p. answer broken (ModelFromPretrained p) 7 id),
      tokenizer_from_pretrained = (\<lambda>p. answer broken (TokenizerFromPretrained p) 3 id),
      model_save_pretrained =
        (\<lambda>m d. answer broken (ModelSavePretrained m d) () (put_file (d @ ''/model.safetensors'') ''weights'')),
      tokenizer_save_pretrained =
        (\<lambda>t d. answer broken (TokenizerSavePretrained t d) () (put_file (d @ ''/tokenizer.json'') ''vocab'')),
      model_push_to_hub = (\<lambda>m n. answer broken (ModelPushToHub m n) () (note_push n)),
      tokenizer_push_to_hub = (\<lambda>t n. answer broken (TokenizerPushToHub t n) () (note_push n)),
      open_error = (\<lambda>p w. broken (Open p ''w'')),
      write_error = (\<lambda>p s w. broken (FileWrite p s)),
      Repository = (\<lambda>d n. answer broken (RepositoryInit d n) 1 id),
      repo_push_to_hub = (\<lambda>r msg. answer broken (RepoPushToHub r msg) () (note_push msg))\<rparr>"

definition stub_ok :: "(string, nat, nat, nat, string list) lib" where
  "stub_ok = stub (\<lambda>_. None)"

text \<open>The same library when the checkpoint directory is not there.\<close>

definition stub_no_checkpoint :: "(string, nat, nat, nat, string list) lib" where
  "stub_no_checkpoint =
     stub (\<lambda>c. if c = ModelFromPretrained checkpoint_path then Some ''OSError'' else None)"

text \<open>The same library when the hub is unreachable for the tokenizer push.\<close>

definition stub_offline :: "(string, nat, nat, nat, string list) lib" where
  "stub_offline =
     stub (\<lambda>c. if c = TokenizerPushToHub 3 model_name_on_hub then Some ''ConnectionError'' else None)"

definition fresh_world :: "string list world" where
  "fresh_world = \<lparr>files = Map.empty, outside = []\<rparr>"

text \<open>A world where the directory already holds a card and another file.\<close>

definition used_world :: "string list world" where
  "used_world =
     \<lparr>files = [''desired-model-name/README.md'' \<mapsto> ''old card'',
                ''desired-model-name/config.json'' \<mapsto> ''{}''],
      outside = []\<rparr>"

text \<open>
  A library like \<open>stub_ok\<close>, except that \<^verbatim>\<open>Repository(d, clone_from=n)\<close> refuses a directory
  that is not a clone already (one without \<^verbatim>\<open>.git/HEAD\<close>), as \<^verbatim>\<open>huggingface_hub\<close> refuses a
  non-empty directory that is not a git repository. By the time the notebook calls it, the
  directory is never empty: the card has just been written there.
\<close>

definition stub_git :: "(string, nat, nat, nat, string list) lib" where
  "stub_git =
     stub_ok\<lparr>Repository :=
       (\<lambda>d n w. if files w (d @ ''/.git/HEAD'') = None then (Inl ''EnvironmentError'', w)
                else (Inr 1, w))\<rparr>"

text \<open>A world where the directory is a clone of the repository.\<close>

definition cloned_world :: "string list world" where
  "cloned_world =
     \<lparr>files = [''desired-model-name/.git/HEAD'' \<mapsto> ''ref: refs/heads/main''], outside = []\<rparr>"

text \<open>The worlds these libraries leave after cell 3 and after the card is written.\<close>

definition after_saves :: "string list world \<Rightarrow> string list world" where
  "after_saves w =
     put_file ''desired-model-name/tokenizer.json'' ''vocab''
       (put_file ''desired-model-name/model.safetensors'' ''weights'' w)"

definition after_pushes :: "string list world \<Rightarrow> string list world" where
  "after_pushes w = note_push ''desired-model-name'' (note_push ''desired-model-name'' (after_saves w))"

definition after_card :: "string list world \<Rightarrow> string list world" where
  "after_card w = put_file ''desired-model-name/README.md'' model_card_content (after_pushes w)"

section \<open>What a directory holds\<close>




section \<open>The shape of every run\<close>

abbreviation ev ::
  "('m, 't, 'r) call \<Rightarrow> 'e option \<Rightarrow> 'x world \<Rightarrow> ('e, 'm, 't, 'r, 'x) event" where
  "ev c x w \<equiv> \<lparr>invoked = c, exc = x, post = w\<rparr>"

lemma then_do_invoke:
  "then_do (invoke c f) k s =
     (case f (now s) of
        (Inl e, w) \<Rightarrow> (Inl e, \<lparr>now = w, trace = trace s @ [ev c (Some e) w]\<rparr>)
      | (Inr a, w) \<Rightarrow> k a \<lparr>now = w, trace = trace s @ [ev c None w]\<rparr>)"
  by (simp add: then_do_def invoke_def exc_of_def split: prod.split sum.split)

lemma invoke_alt:
  "invoke c f s =
     (case f (now s) of
        (Inl e, w) \<Rightarrow> (Inl e, \<lparr>now = w, trace = trace s @ [ev c (Some e) w]\<rparr>)
      | (Inr a, w) \<Rightarrow> (Inr a, \<lparr>now = w, trace = trace s @ [ev c None w]\<rparr>))"
  by (simp add: invoke_def exc_of_def split: prod.split sum.split)

lemma then_do_assoc: "then_do (then_do p k) h = then_do p (\<lambda>a. then_do (k a) h)"
  by (rule ext) (simp add: then_do_def split: prod.split sum.split)

lemma then_do_done: "then_do (done_with a) k = k a"
  by (rule ext) (simp add: then_do_def done_with_def)

text \<open>The notebook as one sequence of its eleven calls.\<close>

lemma notebook_flat:
  "notebook_with L cp name =
     then_do (invoke NotebookLogin (notebook_login L)) (\<lambda>_.
     then_do (invoke (ModelFromPretrained cp) (model_from_pretrained L cp)) (\<lambda>model.
     then_do (invoke (TokenizerFromPretrained ''distilbert-base-uncased'')
                (tokenizer_from_pretrained L ''distilbert-base-uncased'')) (\<lambda>tokenizer.
     then_do (invoke (ModelSavePretrained model name) (model_save_pretrained L model name)) (\<lambda>_.
     then_do (invoke (TokenizerSavePretrained tokenizer name)
                (tokenizer_save_pretrained L tokenizer name)) (\<lambda>_.
     then_do (invoke (ModelPushToHub model name) (model_push_to_hub L model name)) (\<lambda>_.
     then_do (invoke (TokenizerPushToHub tokenizer name) (tokenizer_push_to_hub L tokenizer name)) (\<lambda>_.
     then_do (open_w L (name @ ''/README.md'')) (\<lambda>file.
     then_do (file_write L file model_card_content) (\<lambda>_.
     then_do (invoke (RepositoryInit name name) (Repository L name name)) (\<lambda>repo.
     invoke (RepoPushToHub repo ''Add model card'') (repo_push_to_hub L repo ''Add model card'')))))))))))"
  by (simp add: notebook_with_def cell_login_def cell_load_def cell_save_push_def cell_card_def
      write_model_card_def then_do_assoc then_do_done Let_def)

text \<open>
  Every run ends in exactly one of twelve ways: one of the eleven calls raises, after all
  earlier ones returned, or all eleven return.
\<close>

lemma run_cases:
  obtains
    (login_raises) e w1 where
      "notebook_login L w = (Inl e, w1)"
      "run_with L cp name w =
         (Inl e, \<lparr>now = w1, trace =
           [ev NotebookLogin (Some e) w1]\<rparr>)"
  | (load_model_raises) w1 e w2 where
      "notebook_login L w = (Inr (), w1)"
      "model_from_pretrained L cp w1 = (Inl e, w2)"
      "run_with L cp name w =
         (Inl e, \<lparr>now = w2, trace =
           [ev NotebookLogin None w1,
            ev (ModelFromPretrained cp) (Some e) w2]\<rparr>)"
  | (load_tokenizer_raises) w1 m w2 e w3 where
      "notebook_login L w = (Inr (), w1)"
      "model_from_pretrained L cp w1 = (Inr m, w2)"
      "tokenizer_from_pretrained L ''distilbert-base-uncased'' w2 = (Inl e, w3)"
      "run_with L cp name w =
         (Inl e, \<lparr>now = w3, trace =
           [ev NotebookLogin None w1,
            ev (ModelFromPretrained cp) None w2,
            ev (TokenizerFromPretrained ''distilbert-base-uncased'') (Some e) w3]\<rparr>)"
  | (save_model_raises) w1 m w2 t w3 e w4 where
      "notebook_login L w = (Inr (), w1)"
      "model_from_pretrained L cp w1 = (Inr m, w2)"
      "tokenizer_from_pretrained L ''distilbert-base-uncased'' w2 = (Inr t, w3)"
      "model_save_pretrained L m name w3 = (Inl e, w4)"
      "run_with L cp name w =
         (Inl e, \<lparr>now = w4, trace =
           [ev NotebookLogin None w1,
            ev (ModelFromPretrained cp) None w2,
            ev (TokenizerFromPretrained ''distilbert-base-uncased'') None w3,
            ev (ModelSavePretrained m name) (Some e) w4]\<rparr>)"
  | (save_tokenizer_raises) w1 m w2 t w3 w4 e w5 where
      "notebook_login L w = (Inr (), w1)"
      "model_from_pretrained L cp w1 = (Inr m, w2)"
      "tokenizer_from_pretrained L ''distilbert-base-uncased'' w2 = (Inr t, w3)"
      "model_save_pretrained L m name w3 = (Inr (), w4)"
      "tokenizer_save_pretrained L t name w4 = (Inl e, w5)"
      "run_with L cp name w =
         (Inl e, \<lparr>now = w5, trace =
           [ev NotebookLogin None w1,
            ev (ModelFromPretrained cp) None w2,
            ev (TokenizerFromPretrained ''distilbert-base-uncased'') None w3,
            ev (ModelSavePretrained m name) None w4,
            ev (TokenizerSavePretrained t name) (Some e) w5]\<rparr>)"
  | (push_model_raises) w1 m w2 t w3 w4 w5 e w6 where
      "notebook_login L w = (Inr (), w1)"
      "model_from_pretrained L cp w1 = (Inr m, w2)"
      "tokenizer_from_pretrained L ''distilbert-base-uncased'' w2 = (Inr t, w3)"
      "model_save_pretrained L m name w3 = (Inr (), w4)"
      "tokenizer_save_pretrained L t name w4 = (Inr (), w5)"
      "model_push_to_hub L m name w5 = (Inl e, w6)"
      "run_with L cp name w =
         (Inl e, \<lparr>now = w6, trace =
           [ev NotebookLogin None w1,
            ev (ModelFromPretrained cp) None w2,
            ev (TokenizerFromPretrained ''distilbert-base-uncased'') None w3,
            ev (ModelSavePretrained m name) None w4,
            ev (TokenizerSavePretrained t name) None w5,
            ev (ModelPushToHub m name) (Some e) w6]\<rparr>)"
  | (push_tokenizer_raises) w1 m w2 t w3 w4 w5 w6 e w7 where
      "notebook_login L w = (Inr (), w1)"
      "model_from_pretrained L cp w1 = (Inr m, w2)"
      "tokenizer_from_pretrained L ''distilbert-base-uncased'' w2 = (Inr t, w3)"
      "model_save_pretrained L m name w3 = (Inr (), w4)"
      "tokenizer_save_pretrained L t name w4 = (Inr (), w5)"
      "model_push_to_hub L m name w5 = (Inr (), w6)"
      "tokenizer_push_to_hub L t name w6 = (Inl e, w7)"
      "run_with L cp name w =
         (Inl e, \<lparr>now = w7, trace =
           [ev NotebookLogin None w1,
            ev (ModelFromPretrained cp) None w2,
            ev (TokenizerFromPretrained ''distilbert-base-uncased'') None w3,
            ev (ModelSavePretrained m name) None w4,
            ev (TokenizerSavePretrained t name) None w5,
            ev (ModelPushToHub m name) None w6,
            ev (TokenizerPushToHub t name) (Some e) w7]\<rparr>)"
  | (open_raises) w1 m w2 t w3 w4 w5 w6 w7 e where
      "notebook_login L w = (Inr (), w1)"
      "model_from_pretrained L cp w1 = (Inr m, w2)"
      "tokenizer_from_pretrained L ''distilbert-base-uncased'' w2 = (Inr t, w3)"
      "model_save_pretrained L m name w3 = (Inr (), w4)"
      "tokenizer_save_pretrained L t name w4 = (Inr (), w5)"
      "model_push_to_hub L m name w5 = (Inr (), w6)"
      "tokenizer_push_to_hub L t name w6 = (Inr (), w7)"
      "open_error L (name @ ''/README.md'') w7 = Some e"
      "run_with L cp name w =
         (Inl e, \<lparr>now = w7, trace =
           [ev NotebookLogin None w1,
            ev (ModelFromPretrained cp) None w2,
            ev (TokenizerFromPretrained ''distilbert-base-uncased'') None w3,
            ev (ModelSavePretrained m name) None w4,
            ev (TokenizerSavePretrained t name) None w5,
            ev (ModelPushToHub m name) None w6,
            ev (TokenizerPushToHub t name) None w7,
            ev (Open (name @ ''/README.md'') ''w'') (Some e) w7]\<rparr>)"
  | (write_raises) w1 m w2 t w3 w4 w5 w6 w7 e where
      "notebook_login L w = (Inr (), w1)"
      "model_from_pretrained L cp w1 = (Inr m, w2)"
      "tokenizer_from_pretrained L ''distilbert-base-uncased'' w2 = (Inr t, w3)"
      "model_save_pretrained L m name w3 = (Inr (), w4)"
      "tokenizer_save_pretrained L t name w4 = (Inr (), w5)"
      "model_push_to_hub L m name w5 = (Inr (), w6)"
      "tokenizer_push_to_hub L t name w6 = (Inr (), w7)"
      "open_error L (name @ ''/README.md'') w7 = None"
      "write_error L (name @ ''/README.md'') model_card_content
         (w7\<lparr>files := (files w7)(name @ ''/README.md'' \<mapsto> [])\<rparr>) = Some e"
      "run_with L cp name w =
         (Inl e, \<lparr>now = w7\<lparr>files := (files w7)(name @ ''/README.md'' \<mapsto> [])\<rparr>, trace =
           [ev NotebookLogin None w1,
            ev (ModelFromPretrained cp) None w2,
            ev (TokenizerFromPretrained ''distilbert-base-uncased'') None w3,
            ev (ModelSavePretrained m name) None w4,
            ev (TokenizerSavePretrained t name) None w5,
            ev (ModelPushToHub m name) None w6,
            ev (TokenizerPushToHub t name) None w7,
            ev (Open (name @ ''/README.md'') ''w'') None (w7\<lparr>files := (files w7)(name @ ''/README.md'' \<mapsto> [])\<rparr>),
            ev (FileWrite (name @ ''/README.md'') model_card_content) (Some e) (w7\<lparr>files := (files w7)(name @ ''/README.md'' \<mapsto> [])\<rparr>)]\<rparr>)"
  | (repository_raises) w1 m w2 t w3 w4 w5 w6 w7 e w10 where
      "notebook_login L w = (Inr (), w1)"
      "model_from_pretrained L cp w1 = (Inr m, w2)"
      "tokenizer_from_pretrained L ''distilbert-base-uncased'' w2 = (Inr t, w3)"
      "model_save_pretrained L m name w3 = (Inr (), w4)"
      "tokenizer_save_pretrained L t name w4 = (Inr (), w5)"
      "model_push_to_hub L m name w5 = (Inr (), w6)"
      "tokenizer_push_to_hub L t name w6 = (Inr (), w7)"
      "open_error L (name @ ''/README.md'') w7 = None"
      "write_error L (name @ ''/README.md'') model_card_content
         (w7\<lparr>files := (files w7)(name @ ''/README.md'' \<mapsto> [])\<rparr>) = None"
      "Repository L name name (w7\<lparr>files := (files w7)(name @ ''/README.md'' \<mapsto> model_card_content)\<rparr>) = (Inl e, w10)"
      "run_with L cp name w =
         (Inl e, \<lparr>now = w10, trace =
           [ev NotebookLogin None w1,
            ev (ModelFromPretrained cp) None w2,
            ev (TokenizerFromPretrained ''distilbert-base-uncased'') None w3,
            ev (ModelSavePretrained m name) None w4,
            ev (TokenizerSavePretrained t name) None w5,
            ev (ModelPushToHub m name) None w6,
            ev (TokenizerPushToHub t name) None w7,
            ev (Open (name @ ''/README.md'') ''w'') None (w7\<lparr>files := (files w7)(name @ ''/README.md'' \<mapsto> [])\<rparr>),
            ev (FileWrite (name @ ''/README.md'') model_card_content) None (w7\<lparr>files := (files w7)(name @ ''/README.md'' \<mapsto> model_card_content)\<rparr>),
            ev (RepositoryInit name name) (Some e) w10]\<rparr>)"
  | (push_repo_raises) w1 m w2 t w3 w4 w5 w6 w7 r w10 e w11 where
      "notebook_login L w = (Inr (), w1)"
      "model_from_pretrained L cp w1 = (Inr m, w2)"
      "tokenizer_from_pretrained L ''distilbert-base-uncased'' w2 = (Inr t, w3)"
      "model_save_pretrained L m name w3 = (Inr (), w4)"
      "tokenizer_save_pretrained L t name w4 = (Inr (), w5)"
      "model_push_to_hub L m name w5 = (Inr (), w6)"
      "tokenizer_push_to_hub L t name w6 = (Inr (), w7)"
      "open_error L (name @ ''/README.md'') w7 = None"
      "write_error L (name @ ''/README.md'') model_card_content
         (w7\<lparr>files := (files w7)(name @ ''/README.md'' \<mapsto> [])\<rparr>) = None"
      "Repository L name name (w7\<lparr>files := (files w7)(name @ ''/README.md'' \<mapsto> model_card_content)\<rparr>) = (Inr r, w10)"
      "repo_push_to_hub L r ''Add model card'' w10 = (Inl e, w11)"
      "run_with L cp name w =
         (Inl e, \<lparr>now = w11, trace =
           [ev NotebookLogin None w1,
            ev (ModelFromPretrained cp) None w2,
            ev (TokenizerFromPretrained ''distilbert-base-uncased'') None w3,
            ev (ModelSavePretrained m name) None w4,
            ev (TokenizerSavePretrained t name) None w5,
            ev (ModelPushToHub m name) None w6,
            ev (TokenizerPushToHub t name) None w7,
            ev (Open (name @ ''/README.md'') ''w'') None (w7\<lparr>files := (files w7)(name @ ''/README.md'' \<mapsto> [])\<rparr>),
            ev (FileWrite (name @ ''/README.md'') model_card_content) None (w7\<lparr>files := (files w7)(name @ ''/README.md'' \<mapsto> model_card_content)\<rparr>),
            ev (RepositoryInit name name) None w10,
            ev (RepoPushToHub r ''Add model card'') (Some e) w11]\<rparr>)"
  | (completes) w1 m w2 t w3 w4 w5 w6 w7 r w10 w11 where
      "notebook_login L w = (Inr (), w1)"
      "model_from_pretrained L cp w1 = (Inr m, w2)"
      "tokenizer_from_pretrained L ''distilbert-base-uncased'' w2 = (Inr t, w3)"
      "model_save_pretrained L m name w3 = (Inr (), w4)"
      "tokenizer_save_pretrained L t name w4 = (Inr (), w5)"
      "model_push_to_hub L m name w5 = (Inr (), w6)"
      "tokenizer_push_to_hub L t name w6 = (Inr (), w7)"
      "open_error L (name @ ''/README.md'') w7 = None"
      "write_error L (name @ ''/README.md'') model_card_content
         (w7\<lparr>files := (files w7)(name @ ''/README.md'' \<mapsto> [])\<rparr>) = None"
      "Repository L name name (w7\<lparr>files := (files w7)(name @ ''/README.md'' \<mapsto> model_card_content)\<rparr>) = (Inr r, w10)"
      "repo_push_to_hub L r ''Add model card'' w10 = (Inr (), w11)"
      "run_with L cp name w =
         (Inr (), \<lparr>now = w11, trace =
           [ev NotebookLogin None w1,
            ev (ModelFromPretrained cp) None w2,
            ev (TokenizerFromPretrained ''distilbert-base-uncased'') None w3,
            ev (ModelSavePretrained m name) None w4,
            ev (TokenizerSavePretrained t name) None w5,
            ev (ModelPushToHub m name) None w6,
            ev (TokenizerPushToHub t name) None w7,
            ev (Open (name @ ''/README.md'') ''w'') None (w7\<lparr>files := (files w7)(name @ ''/README.md'' \<mapsto> [])\<rparr>),
            ev (FileWrite (name @ ''/README.md'') model_card_content) None (w7\<lparr>files := (files w7)(name @ ''/README.md'' \<mapsto> model_card_content)\<rparr>),
            ev (RepositoryInit name name) None w10,
            ev (RepoPushToHub r ''Add model card'') None w11]\<rparr>)"
proof -
  obtain r1 w1 where c1: "notebook_login L w = (r1, w1)"
    by (cases "notebook_login L w")
  show thesis
  proof (cases r1)
    case (Inl e)
    then show ?thesis
      using that(1) [of e w1]  c1 by (simp add: run_with_def notebook_flat then_do_invoke invoke_alt open_w_def file_write_def)
  next
    case n1: (Inr u1)
    obtain r2 w2 where c2: "model_from_pretrained L cp w1 = (r2, w2)"
      by (cases "model_from_pretrained L cp w1")
    show thesis
    proof (cases r2)
      case (Inl e)
      then show ?thesis
        using that(2) [of w1 e w2] c1 [unfolded n1] c2 by (simp add: run_with_def notebook_flat then_do_invoke invoke_alt open_w_def file_write_def)
    next
      case n2: (Inr m)
      obtain r3 w3 where c3: "tokenizer_from_pretrained L ''distilbert-base-uncased'' w2 = (r3, w3)"
        by (cases "tokenizer_from_pretrained L ''distilbert-base-uncased'' w2")
      show thesis
      proof (cases r3)
        case (Inl e)
        then show ?thesis
          using that(3) [of w1 m w2 e w3] c1 [unfolded n1] c2 [unfolded n2] c3 by (simp add: run_with_def notebook_flat then_do_invoke invoke_alt open_w_def file_write_def)
      next
        case n3: (Inr t)
        obtain r4 w4 where c4: "model_save_pretrained L m name w3 = (r4, w4)"
          by (cases "model_save_pretrained L m name w3")
        show thesis
        proof (cases r4)
          case (Inl e)
          then show ?thesis
            using that(4) [of w1 m w2 t w3 e w4] c1 [unfolded n1] c2 [unfolded n2] c3 [unfolded n3] c4 by (simp add: run_with_def notebook_flat then_do_invoke invoke_alt open_w_def file_write_def)
        next
          case n4: (Inr u4)
          obtain r5 w5 where c5: "tokenizer_save_pretrained L t name w4 = (r5, w5)"
            by (cases "tokenizer_save_pretrained L t name w4")
          show thesis
          proof (cases r5)
            case (Inl e)
            then show ?thesis
              using that(5) [of w1 m w2 t w3 w4 e w5] c1 [unfolded n1] c2 [unfolded n2] c3 [unfolded n3] c4 [unfolded n4] c5 by (simp add: run_with_def notebook_flat then_do_invoke invoke_alt open_w_def file_write_def)
          next
            case n5: (Inr u5)
            obtain r6 w6 where c6: "model_push_to_hub L m name w5 = (r6, w6)"
              by (cases "model_push_to_hub L m name w5")
            show thesis
            proof (cases r6)
              case (Inl e)
              then show ?thesis
                using that(6) [of w1 m w2 t w3 w4 w5 e w6] c1 [unfolded n1] c2 [unfolded n2] c3 [unfolded n3] c4 [unfolded n4] c5 [unfolded n5] c6 by (simp add: run_with_def notebook_flat then_do_invoke invoke_alt open_w_def file_write_def)
            next
              case n6: (Inr u6)
              obtain r7 w7 where c7: "tokenizer_push_to_hub L t name w6 = (r7, w7)"
                by (cases "tokenizer_push_to_hub L t name w6")
              show thesis
              proof (cases r7)
                case (Inl e)
                then show ?thesis
                  using that(7) [of w1 m w2 t w3 w4 w5 w6 e w7] c1 [unfolded n1] c2 [unfolded n2] c3 [unfolded n3] c4 [unfolded n4] c5 [unfolded n5] c6 [unfolded n6] c7 by (simp add: run_with_def notebook_flat then_do_invoke invoke_alt open_w_def file_write_def)
              next
                case n7: (Inr u7)
                show thesis
                proof (cases "open_error L (name @ ''/README.md'') w7")
                  case (Some e)
                  then show ?thesis
                    using that(8) [of w1 m w2 t w3 w4 w5 w6 w7 e] c1 [unfolded n1] c2 [unfolded n2] c3 [unfolded n3] c4 [unfolded n4] c5 [unfolded n5] c6 [unfolded n6] c7 [unfolded n7] by (simp add: run_with_def notebook_flat then_do_invoke invoke_alt open_w_def file_write_def)
                next
                  case n8: None
                  show thesis
                  proof (cases "write_error L (name @ ''/README.md'') model_card_content (w7\<lparr>files := (files w7)(name @ ''/README.md'' \<mapsto> [])\<rparr>)")
                    case (Some e)
                    then show ?thesis
                      using that(9) [of w1 m w2 t w3 w4 w5 w6 w7 e] c1 [unfolded n1] c2 [unfolded n2] c3 [unfolded n3] c4 [unfolded n4] c5 [unfolded n5] c6 [unfolded n6] c7 [unfolded n7] n8 by (simp add: run_with_def notebook_flat then_do_invoke invoke_alt open_w_def file_write_def)
                  next
                    case n9: None
                    obtain r10 w10 where c10: "Repository L name name (w7\<lparr>files := (files w7)(name @ ''/README.md'' \<mapsto> model_card_content)\<rparr>) = (r10, w10)"
                      by (cases "Repository L name name (w7\<lparr>files := (files w7)(name @ ''/README.md'' \<mapsto> model_card_content)\<rparr>)")
                    show thesis
                    proof (cases r10)
                      case (Inl e)
                      then show ?thesis
                        using that(10) [of w1 m w2 t w3 w4 w5 w6 w7 e w10] c1 [unfolded n1] c2 [unfolded n2] c3 [unfolded n3] c4 [unfolded n4] c5 [unfolded n5] c6 [unfolded n6] c7 [unfolded n7] n8 n9 c10 by (simp add: run_with_def notebook_flat then_do_invoke invoke_alt open_w_def file_write_def)
                    next
                      case n10: (Inr r)
                      obtain r11 w11 where c11: "repo_push_to_hub L r ''Add model card'' w10 = (r11, w11)"
                        by (cases "repo_push_to_hub L r ''Add model card'' w10")
                      show thesis
                      proof (cases r11)
                        case (Inl e)
                        then show ?thesis
                          using that(11) [of w1 m w2 t w3 w4 w5 w6 w7 r w10 e w11] c1 [unfolded n1] c2 [unfolded n2] c3 [unfolded n3] c4 [unfolded n4] c5 [unfolded n5] c6 [unfolded n6] c7 [unfolded n7] n8 n9 c10 [unfolded n10] c11 by (simp add: run_with_def notebook_flat then_do_invoke invoke_alt open_w_def file_write_def)
                      next
                        case n11: (Inr u11)
                        show ?thesis
                          using that(12) [of w1 m w2 t w3 w4 w5 w6 w7 r w10 w11] c1 [unfolded n1] c2 [unfolded n2] c3 [unfolded n3] c4 [unfolded n4] c5 [unfolded n5] c6 [unfolded n6] c7 [unfolded n7] n8 n9 c10 [unfolded n10] c11 [unfolded n11] by (simp add: run_with_def notebook_flat then_do_invoke invoke_alt open_w_def file_write_def)
                      qed
                    qed
                  qed
                qed
              qed
            qed
          qed
        qed
      qed
    qed
  qed
qed


lemmas run_simps =
  run_with_def notebook_flat then_do_invoke invoke_alt open_w_def file_write_def

lemmas stub_simps =
  stub_def stub_ok_def stub_no_checkpoint_def stub_offline_def answer_def put_file_def
  note_push_def fresh_world_def used_world_def checkpoint_path_def model_name_on_hub_def
  stub_git_def cloned_world_def after_saves_def after_pushes_def after_card_def

text \<open>A run that raises nothing went through all eleven calls.\<close>

lemma completed_run:
  assumes "raised (run_with L cp name w) = None"
  obtains w1 m w2 t w3 w4 w5 w6 w7 r w10 w11 where
    "notebook_login L w = (Inr (), w1)"
    "model_from_pretrained L cp w1 = (Inr m, w2)"
    "tokenizer_from_pretrained L ''distilbert-base-uncased'' w2 = (Inr t, w3)"
    "model_save_pretrained L m name w3 = (Inr (), w4)"
    "tokenizer_save_pretrained L t name w4 = (Inr (), w5)"
    "model_push_to_hub L m name w5 = (Inr (), w6)"
    "tokenizer_push_to_hub L t name w6 = (Inr (), w7)"
    "Repository L name name
       (w7\<lparr>files := (files w7)(name @ ''/README.md'' \<mapsto> model_card_content)\<rparr>) = (Inr r, w10)"
    "repo_push_to_hub L r ''Add model card'' w10 = (Inr (), w11)"
    "run_with L cp name w =
       (Inr (), \<lparr>now = w11, trace =
         [ev NotebookLogin None w1,
          ev (ModelFromPretrained cp) None w2,
          ev (TokenizerFromPretrained ''distilbert-base-uncased'') None w3,
          ev (ModelSavePretrained m name) None w4,
          ev (TokenizerSavePretrained t name) None w5,
          ev (ModelPushToHub m name) None w6,
          ev (TokenizerPushToHub t name) None w7,
          ev (Open (name @ ''/README.md'') ''w'') None
            (w7\<lparr>files := (files w7)(name @ ''/README.md'' \<mapsto> [])\<rparr>),
          ev (FileWrite (name @ ''/README.md'') model_card_content) None
            (w7\<lparr>files := (files w7)(name @ ''/README.md'' \<mapsto> model_card_content)\<rparr>),
          ev (RepositoryInit name name) None w10,
          ev (RepoPushToHub r ''Add model card'') None w11]\<rparr>)"
proof (cases rule: run_cases [where L = L and cp = cp and name = name and w = w])
  case (completes w1 m w2 t w3 w4 w5 w6 w7 r w10 w11)
  then show ?thesis using that by blast
qed (use assms in \<open>simp_all add: raised_def exc_of_def\<close>)

section \<open>The end-to-end scenario\<close>







section \<open>The model card\<close>

lemma card_lines: "lines_of model_card_content = model_card_lines"
  by (simp add: lines_of_def model_card_content_def model_card_lines_def)

lemma card_section_headers:
  "section_headers model_card_content =
     [''Model Description'', ''Intended Use'', ''Limitations'', ''Hardware '',
      ''Software Optimizations'', ''Ethical Considerations'', ''More Information'']"
  by (simp add: section_headers_def card_lines) (simp add: model_card_lines_def)

text \<open>Whatever the run, the only file written is the card, with the template as its text.\<close>

lemma file_write_events:
  assumes "e \<in> set (trace (snd (run_with L cp name w)))" and "invoked e = FileWrite p c"
  shows "p = name @ ''/README.md'' \<and> c = model_card_content
         \<and> (exc e = None \<longrightarrow> files (post e) p = Some model_card_content)"
  using assms
  by (cases rule: run_cases [where L = L and cp = cp and name = name and w = w]) auto

lemma file_write_calls:
  assumes "FileWrite p c \<in> set (calls (run_with L cp name w))"
  shows "p = name @ ''/README.md'' \<and> c = model_card_content"
  using assms file_write_events [of _ L cp name w p c] by (auto simp: calls_def)


text \<open>
  Claim C2, as amended. In every run, a write to a file goes to \<^verbatim>\<open><name>/README.md\<close> and
  carries the template, and once the write has returned the file holds exactly the template;
  a run that raises nothing does perform this write. The second-level headers of the template
  are, literally: \<^verbatim>\<open>Model Description\<close>, \<^verbatim>\<open>Intended Use\<close>, \<^verbatim>\<open>Limitations\<close>, \<^verbatim>\<open>Hardware\<close>
  followed by one space, \<^verbatim>\<open>Software Optimizations\<close>, \<^verbatim>\<open>Ethical Considerations\<close> and
  \<^verbatim>\<open>More Information\<close>.
\<close>

theorem model_card_written:
  "(\<forall>e \<in> set (trace (snd (run_with L cp name w))). \<forall>p c.
      invoked e = FileWrite p c \<longrightarrow>
        p = name @ ''/README.md'' \<and> c = model_card_content
        \<and> (exc e = None \<longrightarrow> files (post e) p = Some model_card_content))
   \<and> (raised (run_with L cp name w) = None \<longrightarrow>
        FileWrite (name @ ''/README.md'') model_card_content \<in> set (calls (run_with L cp name w)))
   \<and> section_headers model_card_content =
       [''Model Description'', ''Intended Use'', ''Limitations'', ''Hardware '',
        ''Software Optimizations'', ''Ethical Considerations'', ''More Information'']"
proof (intro conjI)
  show "\<forall>e \<in> set (trace (snd (run_with L cp name w))). \<forall>p c.
      invoked e = FileWrite p c \<longrightarrow>
        p = name @ ''/README.md'' \<and> c = model_card_content
        \<and> (exc e = None \<longrightarrow> files (post e) p = Some model_card_content)"
    using file_write_events [of _ L cp name w] by blast
next
  show "raised (run_with L cp name w) = None \<longrightarrow>
      FileWrite (name @ ''/README.md'') model_card_content \<in> set (calls (run_with L cp name w))"
  proof
    assume "raised (run_with L cp name w) = None"
    then show "FileWrite (name @ ''/README.md'') model_card_content
        \<in> set (calls (run_with L cp name w))"
      by (rule completed_run) (simp add: calls_def)
  qed
next
  show "section_headers model_card_content =
       [''Model Description'', ''Intended Use'', ''Limitations'', ''Hardware '',
        ''Software Optimizations'', ''Ethical Considerations'', ''More Information'']"
    by (rule card_section_headers)
qed

theorem model_card_written_witness:
  "trace (snd (run stub_ok fresh_world)) ! 8 \<in> set (trace (snd (run stub_ok fresh_world)))
   \<and> invoked (trace (snd (run stub_ok fresh_world)) ! 8) =
       FileWrite ''desired-model-name/README.md'' model_card_content
   \<and> exc (trace (snd (run stub_ok fresh_world)) ! 8) = None
   \<and> files (post (trace (snd (run stub_ok fresh_world)) ! 8)) ''desired-model-name/README.md'' =
       Some model_card_content
   \<and> raised (run stub_ok fresh_world) = None
   \<and> FileWrite ''desired-model-name/README.md'' model_card_content
       \<in> set (calls (run stub_ok fresh_world))"
  using model_card_written [of stub_ok checkpoint_path model_name_on_hub fresh_world]
  by (simp add: raised_def exc_of_def calls_def run_def run_simps stub_simps)

text \<open>
  The claim as stated names the first header \<^verbatim>\<open>Description\<close> and the fourth \<^verbatim>\<open>Hardware\<close>; the
  template has \<^verbatim>\<open>## Model Description\<close> and \<^verbatim>\<open>## Hardware \<close> with a trailing space.
\<close>

theorem model_card_headers_counterexample:
  "section_headers model_card_content \<noteq>
     [''Description'', ''Intended Use'', ''Limitations'', ''Hardware'',
      ''Software Optimizations'', ''Ethical Considerations'', ''More Information'']"
  by (simp add: card_section_headers)

text \<open>
  Claim C10. The text written to the card does not depend on the run: for any two runs, with
  any libraries, checkpoint paths, names and initial worlds, whatever is written in one is
  what is written in the other, namely the constant template.
\<close>

theorem model_card_constant:
  assumes "FileWrite p c \<in> set (calls (run_with L cp name w))"
      and "FileWrite p' c' \<in> set (calls (run_with L' cp' name' w'))"
  shows "c = c' \<and> c = model_card_content"
  using file_write_calls [OF assms(1)] file_write_calls [OF assms(2)] by simp

theorem model_card_constant_witness:
  "FileWrite ''desired-model-name/README.md'' model_card_content
     \<in> set (calls (run_with stub_ok ''./results/checkpoint-2000'' ''desired-model-name'' fresh_world))
   \<and> FileWrite ''another-name/README.md'' model_card_content
     \<in> set (calls (run_with stub_ok ''./results/checkpoint-500'' ''another-name'' used_world))"
  using model_card_constant
    [of "''desired-model-name/README.md''" model_card_content stub_ok
        "''./results/checkpoint-2000''" "''desired-model-name''" fresh_world
        "''another-name/README.md''" model_card_content stub_ok
        "''./results/checkpoint-500''" "''another-name''" used_world]
  by (simp add: calls_def run_simps stub_simps)


section \<open>Order of saves and uploads\<close>

text \<open>
  Claim C3, as amended. In every run in which no call raises, exactly three upload calls are
  issued: the model, the tokenizer, the card, in that order. In every run whatsoever the
  uploads issued are an initial part of these three (so each is issued at most once, in that
  order), and each upload that is issued comes after its own local save has returned: the
  model save, the tokenizer save, and the write of the card to \<^verbatim>\<open><name>/README.md\<close>.
\<close>

theorem uploads_in_order:
  "(raised (run_with L cp name w) = None \<longrightarrow>
      (\<exists>m t rp. uploads (run_with L cp name w) =
         [ModelPushToHub m name, TokenizerPushToHub t name, RepoPushToHub rp ''Add model card'']))
   \<and> (\<exists>m t rp. uploads (run_with L cp name w) =
         take (length (uploads (run_with L cp name w)))
           [ModelPushToHub m name, TokenizerPushToHub t name, RepoPushToHub rp ''Add model card''])
   \<and> (\<forall>m n. ModelPushToHub m n \<in> set (calls (run_with L cp name w)) \<longrightarrow>
         returned_before (ModelSavePretrained m n) (ModelPushToHub m n)
           (trace (snd (run_with L cp name w))))
   \<and> (\<forall>t n. TokenizerPushToHub t n \<in> set (calls (run_with L cp name w)) \<longrightarrow>
         returned_before (TokenizerSavePretrained t n) (TokenizerPushToHub t n)
           (trace (snd (run_with L cp name w))))
   \<and> (\<forall>rp msg. RepoPushToHub rp msg \<in> set (calls (run_with L cp name w)) \<longrightarrow>
         returned_before (FileWrite (name @ ''/README.md'') model_card_content)
           (RepoPushToHub rp msg) (trace (snd (run_with L cp name w))))"
proof (intro conjI)
  show "raised (run_with L cp name w) = None \<longrightarrow>
      (\<exists>m t rp. uploads (run_with L cp name w) =
         [ModelPushToHub m name, TokenizerPushToHub t name, RepoPushToHub rp ''Add model card''])"
  proof
    assume "raised (run_with L cp name w) = None"
    then show "\<exists>m t rp. uploads (run_with L cp name w) =
         [ModelPushToHub m name, TokenizerPushToHub t name, RepoPushToHub rp ''Add model card'']"
      by (rule completed_run) (simp add: uploads_def calls_def)
  qed
next
  show "\<exists>m t rp. uploads (run_with L cp name w) =
         take (length (uploads (run_with L cp name w)))
           [ModelPushToHub m name, TokenizerPushToHub t name, RepoPushToHub rp ''Add model card'']"
    by (cases rule: run_cases [where L = L and cp = cp and name = name and w = w])
      (simp_all add: uploads_def calls_def)
next
  show "\<forall>m n. ModelPushToHub m n \<in> set (calls (run_with L cp name w)) \<longrightarrow>
         returned_before (ModelSavePretrained m n) (ModelPushToHub m n)
           (trace (snd (run_with L cp name w)))"
    by (cases rule: run_cases [where L = L and cp = cp and name = name and w = w])
      (simp_all add: calls_def)
next
  show "\<forall>t n. TokenizerPushToHub t n \<in> set (calls (run_with L cp name w)) \<longrightarrow>
         returned_before (TokenizerSavePretrained t n) (TokenizerPushToHub t n)
           (trace (snd (run_with L cp name w)))"
    by (cases rule: run_cases [where L = L and cp = cp and name = name and w = w])
      (simp_all add: calls_def)
next
  show "\<forall>rp msg. RepoPushToHub rp msg \<in> set (calls (run_with L cp name w)) \<longrightarrow>
         returned_before (FileWrite (name @ ''/README.md'') model_card_content)
           (RepoPushToHub rp msg) (trace (snd (run_with L cp name w)))"
    by (cases rule: run_cases [where L = L and cp = cp and name = name and w = w])
      (simp_all add: calls_def)
qed

theorem uploads_in_order_witness:
  "raised (run_with stub_ok checkpoint_path model_name_on_hub fresh_world) = None
   \<and> uploads (run_with stub_ok checkpoint_path model_name_on_hub fresh_world) =
       [ModelPushToHub 7 ''desired-model-name'', TokenizerPushToHub 3 ''desired-model-name'',
        RepoPushToHub 1 ''Add model card'']
   \<and> ModelPushToHub 7 ''desired-model-name''
       \<in> set (calls (run_with stub_ok checkpoint_path model_name_on_hub fresh_world))
   \<and> returned_before (ModelSavePretrained 7 ''desired-model-name'')
        (ModelPushToHub 7 ''desired-model-name'')
        (trace (snd (run_with stub_ok checkpoint_path model_name_on_hub fresh_world)))
   \<and> TokenizerPushToHub 3 ''desired-model-name''
       \<in> set (calls (run_with stub_ok checkpoint_path model_name_on_hub fresh_world))
   \<and> returned_before (TokenizerSavePretrained 3 ''desired-model-name'')
        (TokenizerPushToHub 3 ''desired-model-name'')
        (trace (snd (run_with stub_ok checkpoint_path model_name_on_hub fresh_world)))
   \<and> RepoPushToHub 1 ''Add model card''
       \<in> set (calls (run_with stub_ok checkpoint_path model_name_on_hub fresh_world))
   \<and> returned_before (FileWrite ''desired-model-name/README.md'' model_card_content)
        (RepoPushToHub 1 ''Add model card'')
        (trace (snd (run_with stub_ok checkpoint_path model_name_on_hub fresh_world)))"
  using uploads_in_order [of stub_ok checkpoint_path model_name_on_hub fresh_world]
  by (simp add: raised_def exc_of_def calls_def uploads_def run_simps stub_simps)

text \<open>
  The claim as stated speaks of every run. A run whose checkpoint cannot be loaded issues no
  upload at all.
\<close>

theorem uploads_in_order_counterexample:
  "uploads (run stub_no_checkpoint fresh_world) = []"
  by (simp add: uploads_def calls_def run_def run_simps stub_simps)

section \<open>A checkpoint that cannot be loaded\<close>

text \<open>
  Claim C4. Whether a missing checkpoint path makes the load raise is the library's business
  (\<^verbatim>\<open>from_pretrained\<close> does raise there); the notebook's part is what follows. Whenever the
  login has returned and the model load raises, the run ends with that very exception, and
  its only calls are the login and the model load: no save, no write and no upload is
  attempted, not even the tokenizer load. Moreover, in every run a tokenizer upload is
  preceded by the upload of the model under the same name, which has returned.
\<close>

theorem load_failure_stops_run:
  "(notebook_login L w = (Inr (), w1) \<and> fst (model_from_pretrained L cp w1) = Inl e \<longrightarrow>
      fst (run_with L cp name w) = Inl e
      \<and> calls (run_with L cp name w) = [NotebookLogin, ModelFromPretrained cp]
      \<and> filter is_save (calls (run_with L cp name w)) = []
      \<and> uploads (run_with L cp name w) = [])
   \<and> (\<forall>t n. TokenizerPushToHub t n \<in> set (calls (run_with L cp name w)) \<longrightarrow>
         (\<exists>m. returned_before (ModelPushToHub m n) (TokenizerPushToHub t n)
                (trace (snd (run_with L cp name w)))))"
proof (intro conjI)
  show "notebook_login L w = (Inr (), w1) \<and> fst (model_from_pretrained L cp w1) = Inl e \<longrightarrow>
      fst (run_with L cp name w) = Inl e
      \<and> calls (run_with L cp name w) = [NotebookLogin, ModelFromPretrained cp]
      \<and> filter is_save (calls (run_with L cp name w)) = []
      \<and> uploads (run_with L cp name w) = []"
    by (cases "model_from_pretrained L cp w1")
      (simp add: run_simps calls_def uploads_def)
next
  show "\<forall>t n. TokenizerPushToHub t n \<in> set (calls (run_with L cp name w)) \<longrightarrow>
         (\<exists>m. returned_before (ModelPushToHub m n) (TokenizerPushToHub t n)
                (trace (snd (run_with L cp name w))))"
    by (cases rule: run_cases [where L = L and cp = cp and name = name and w = w])
      (simp_all add: calls_def)
qed

theorem load_failure_stops_run_witness:
  "notebook_login stub_no_checkpoint fresh_world = (Inr (), fresh_world)
   \<and> fst (model_from_pretrained stub_no_checkpoint checkpoint_path fresh_world) = Inl ''OSError''
   \<and> fst (run_with stub_no_checkpoint checkpoint_path model_name_on_hub fresh_world) = Inl ''OSError''
   \<and> calls (run_with stub_no_checkpoint checkpoint_path model_name_on_hub fresh_world) =
       [NotebookLogin, ModelFromPretrained ''./results/checkpoint-2000'']
   \<and> TokenizerPushToHub 3 ''desired-model-name''
       \<in> set (calls (run_with stub_ok checkpoint_path model_name_on_hub fresh_world))
   \<and> returned_before (ModelPushToHub 7 ''desired-model-name'')
        (TokenizerPushToHub 3 ''desired-model-name'')
        (trace (snd (run_with stub_ok checkpoint_path model_name_on_hub fresh_world)))"
  using load_failure_stops_run
      [of stub_no_checkpoint fresh_world fresh_world checkpoint_path "''OSError''" model_name_on_hub]
    load_failure_stops_run
      [of stub_ok fresh_world fresh_world checkpoint_path "''OSError''" model_name_on_hub]
  by (simp add: calls_def run_simps stub_simps)


section \<open>Where the artifacts come from and where they go\<close>

text \<open>
  Claim C5. The first call is the login. Once it has returned, the model is loaded from the
  checkpoint path; once that has returned, the tokenizer is loaded from the literal
  \<^verbatim>\<open>distilbert-base-uncased\<close>, whatever the checkpoint path is; and then, each call being made
  as soon as the one before it has returned, the model and the tokenizer that the two loads
  returned are saved under the chosen name and pushed under the same name. Nothing here
  depends on the card cell. In every run, no model is loaded from anywhere but the checkpoint
  path and no tokenizer from anywhere but the literal, and the notebook's checkpoint path is
  a different string.
\<close>

theorem tokenizer_from_base_identifier:
  "(notebook_login L w = (Inr (), w1) \<longrightarrow>
      1 < length (calls (run_with L cp name w))
      \<and> calls (run_with L cp name w) ! 1 = ModelFromPretrained cp
      \<and> (model_from_pretrained L cp w1 = (Inr m, w2) \<longrightarrow>
          2 < length (calls (run_with L cp name w))
          \<and> calls (run_with L cp name w) ! 2 = TokenizerFromPretrained ''distilbert-base-uncased''
          \<and> (tokenizer_from_pretrained L ''distilbert-base-uncased'' w2 = (Inr t, w3) \<longrightarrow>
              3 < length (calls (run_with L cp name w))
              \<and> calls (run_with L cp name w) ! 3 = ModelSavePretrained m name
              \<and> (model_save_pretrained L m name w3 = (Inr (), w4) \<longrightarrow>
                  4 < length (calls (run_with L cp name w))
                  \<and> calls (run_with L cp name w) ! 4 = TokenizerSavePretrained t name
                  \<and> (tokenizer_save_pretrained L t name w4 = (Inr (), w5) \<longrightarrow>
                      5 < length (calls (run_with L cp name w))
                      \<and> calls (run_with L cp name w) ! 5 = ModelPushToHub m name
                      \<and> (model_push_to_hub L m name w5 = (Inr (), w6) \<longrightarrow>
                          6 < length (calls (run_with L cp name w))
                          \<and> calls (run_with L cp name w) ! 6 = TokenizerPushToHub t name))))))
   \<and> calls (run_with L cp name w) ! 0 = NotebookLogin
   \<and> (\<forall>p. TokenizerFromPretrained p \<in> set (calls (run_with L cp name w)) \<longrightarrow>
        p = ''distilbert-base-uncased'')
   \<and> (\<forall>p. ModelFromPretrained p \<in> set (calls (run_with L cp name w)) \<longrightarrow> p = cp)
   \<and> checkpoint_path \<noteq> ''distilbert-base-uncased''"
proof (intro conjI)
  show "notebook_login L w = (Inr (), w1) \<longrightarrow>
      1 < length (calls (run_with L cp name w))
      \<and> calls (run_with L cp name w) ! 1 = ModelFromPretrained cp
      \<and> (model_from_pretrained L cp w1 = (Inr m, w2) \<longrightarrow>
          2 < length (calls (run_with L cp name w))
          \<and> calls (run_with L cp name w) ! 2 = TokenizerFromPretrained ''distilbert-base-uncased''
          \<and> (tokenizer_from_pretrained L ''distilbert-base-uncased'' w2 = (Inr t, w3) \<longrightarrow>
              3 < length (calls (run_with L cp name w))
              \<and> calls (run_with L cp name w) ! 3 = ModelSavePretrained m name
              \<and> (model_save_pretrained L m name w3 = (Inr (), w4) \<longrightarrow>
                  4 < length (calls (run_with L cp name w))
                  \<and> calls (run_with L cp name w) ! 4 = TokenizerSavePretrained t name
                  \<and> (tokenizer_save_pretrained L t name w4 = (Inr (), w5) \<longrightarrow>
                      5 < length (calls (run_with L cp name w))
                      \<and> calls (run_with L cp name w) ! 5 = ModelPushToHub m name
                      \<and> (model_push_to_hub L m name w5 = (Inr (), w6) \<longrightarrow>
                          6 < length (calls (run_with L cp name w))
                          \<and> calls (run_with L cp name w) ! 6 = TokenizerPushToHub t name)))))"
    by (cases rule: run_cases [where L = L and cp = cp and name = name and w = w])
      (clarsimp simp: calls_def)+
next
  show "calls (run_with L cp name w) ! 0 = NotebookLogin"
    by (cases rule: run_cases [where L = L and cp = cp and name = name and w = w])
      (simp_all add: calls_def)
next
  show "\<forall>p. TokenizerFromPretrained p \<in> set (calls (run_with L cp name w)) \<longrightarrow>
        p = ''distilbert-base-uncased''"
    by (cases rule: run_cases [where L = L and cp = cp and name = name and w = w])
      (simp_all add: calls_def)
next
  show "\<forall>p. ModelFromPretrained p \<in> set (calls (run_with L cp name w)) \<longrightarrow> p = cp"
    by (cases rule: run_cases [where L = L and cp = cp and name = name and w = w])
      (simp_all add: calls_def)
next
  show "checkpoint_path \<noteq> ''distilbert-base-uncased''"
    by (simp add: checkpoint_path_def)
qed

text \<open>
  A run in which the card cell raises: the loads, the saves and the pushes are all there.
\<close>

theorem tokenizer_from_base_identifier_witness:
  "notebook_login stub_git fresh_world = (Inr (), fresh_world)
   \<and> model_from_pretrained stub_git checkpoint_path fresh_world = (Inr 7, fresh_world)
   \<and> tokenizer_from_pretrained stub_git ''distilbert-base-uncased'' fresh_world
       = (Inr 3, fresh_world)
   \<and> model_save_pretrained stub_git 7 model_name_on_hub fresh_world =
       (Inr (), put_file ''desired-model-name/model.safetensors'' ''weights'' fresh_world)
   \<and> tokenizer_save_pretrained stub_git 3 model_name_on_hub
        (put_file ''desired-model-name/model.safetensors'' ''weights'' fresh_world) =
       (Inr (), after_saves fresh_world)
   \<and> model_push_to_hub stub_git 7 model_name_on_hub (after_saves fresh_world) =
       (Inr (), note_push ''desired-model-name'' (after_saves fresh_world))
   \<and> raised (run_with stub_git checkpoint_path model_name_on_hub fresh_world)
       = Some ''EnvironmentError''
   \<and> take 7 (calls (run_with stub_git checkpoint_path model_name_on_hub fresh_world)) =
       [NotebookLogin,
        ModelFromPretrained ''./results/checkpoint-2000'',
        TokenizerFromPretrained ''distilbert-base-uncased'',
        ModelSavePretrained 7 ''desired-model-name'',
        TokenizerSavePretrained 3 ''desired-model-name'',
        ModelPushToHub 7 ''desired-model-name'',
        TokenizerPushToHub 3 ''desired-model-name'']
   \<and> TokenizerFromPretrained ''distilbert-base-uncased''
       \<in> set (calls (run_with stub_git checkpoint_path model_name_on_hub fresh_world))
   \<and> ModelFromPretrained ''./results/checkpoint-2000''
       \<in> set (calls (run_with stub_git checkpoint_path model_name_on_hub fresh_world))"
proof -
  have cs: "calls (run_with stub_git checkpoint_path model_name_on_hub fresh_world) =
       [NotebookLogin,
        ModelFromPretrained ''./results/checkpoint-2000'',
        TokenizerFromPretrained ''distilbert-base-uncased'',
        ModelSavePretrained 7 ''desired-model-name'',
        TokenizerSavePretrained 3 ''desired-model-name'',
        ModelPushToHub 7 ''desired-model-name'',
        TokenizerPushToHub 3 ''desired-model-name'',
        Open ''desired-model-name/README.md'' ''w'',
        FileWrite ''desired-model-name/README.md'' model_card_content,
        RepositoryInit ''desired-model-name'' ''desired-model-name'']"
    by (simp add: calls_def run_simps stub_simps)
  have rs: "raised (run_with stub_git checkpoint_path model_name_on_hub fresh_world)
       = Some ''EnvironmentError''"
    by (simp add: raised_def exc_of_def run_simps stub_simps)
  have eqs:
    "notebook_login stub_git fresh_world = (Inr (), fresh_world)"
    "model_from_pretrained stub_git checkpoint_path fresh_world = (Inr 7, fresh_world)"
    "tokenizer_from_pretrained stub_git ''distilbert-base-uncased'' fresh_world
       = (Inr 3, fresh_world)"
    "model_save_pretrained stub_git 7 model_name_on_hub fresh_world =
       (Inr (), put_file ''desired-model-name/model.safetensors'' ''weights'' fresh_world)"
    "tokenizer_save_pretrained stub_git 3 model_name_on_hub
        (put_file ''desired-model-name/model.safetensors'' ''weights'' fresh_world) =
       (Inr (), after_saves fresh_world)"
    "model_push_to_hub stub_git 7 model_name_on_hub (after_saves fresh_world) =
       (Inr (), note_push ''desired-model-name'' (after_saves fresh_world))"
    by (simp_all add: stub_git_def stub_ok_def stub_def answer_def after_saves_def
        model_name_on_hub_def)
  show ?thesis
    using tokenizer_from_base_identifier
      [of stub_git fresh_world fresh_world checkpoint_path model_name_on_hub 7 fresh_world 3
        fresh_world
        "put_file ''desired-model-name/model.safetensors'' ''weights'' fresh_world"
        "after_saves fresh_world"
        "note_push ''desired-model-name'' (after_saves fresh_world)"]
    by (simp del: One_nat_def add: cs rs eqs)
qed

text \<open>
  Claim C6. The model is an opaque value to the notebook (its type is a parameter of the
  model, so nothing can look inside it). In every run, a model that is saved or pushed is
  the value the load step returned, and it goes under the chosen name; in a run where no
  call raises that value is both saved and pushed.
\<close>

theorem model_passed_through:
  "(\<forall>m' d. ModelSavePretrained m' d \<in> set (calls (run_with L cp name w))
            \<or> ModelPushToHub m' d \<in> set (calls (run_with L cp name w)) \<longrightarrow>
        fst (model_from_pretrained L cp (snd (notebook_login L w))) = Inr m' \<and> d = name)
   \<and> (raised (run_with L cp name w) = None \<longrightarrow>
        (\<exists>m. fst (model_from_pretrained L cp (snd (notebook_login L w))) = Inr m
             \<and> ModelSavePretrained m name \<in> set (calls (run_with L cp name w))
             \<and> ModelPushToHub m name \<in> set (calls (run_with L cp name w))))"
proof (intro conjI)
  show "\<forall>m' d. ModelSavePretrained m' d \<in> set (calls (run_with L cp name w))
            \<or> ModelPushToHub m' d \<in> set (calls (run_with L cp name w)) \<longrightarrow>
        fst (model_from_pretrained L cp (snd (notebook_login L w))) = Inr m' \<and> d = name"
    by (cases rule: run_cases [where L = L and cp = cp and name = name and w = w])
      (auto simp: calls_def)
next
  show "raised (run_with L cp name w) = None \<longrightarrow>
        (\<exists>m. fst (model_from_pretrained L cp (snd (notebook_login L w))) = Inr m
             \<and> ModelSavePretrained m name \<in> set (calls (run_with L cp name w))
             \<and> ModelPushToHub m name \<in> set (calls (run_with L cp name w)))"
  proof
    assume "raised (run_with L cp name w) = None"
    then show "\<exists>m. fst (model_from_pretrained L cp (snd (notebook_login L w))) = Inr m
             \<and> ModelSavePretrained m name \<in> set (calls (run_with L cp name w))
             \<and> ModelPushToHub m name \<in> set (calls (run_with L cp name w))"
      by (rule completed_run) (simp add: calls_def)
  qed
qed

theorem model_passed_through_witness:
  "ModelSavePretrained 7 ''desired-model-name''
       \<in> set (calls (run_with stub_ok checkpoint_path model_name_on_hub fresh_world))
   \<and> ModelPushToHub 7 ''desired-model-name''
       \<in> set (calls (run_with stub_ok checkpoint_path model_name_on_hub fresh_world))
   \<and> raised (run_with stub_ok checkpoint_path model_name_on_hub fresh_world) = None
   \<and> fst (model_from_pretrained stub_ok checkpoint_path (snd (notebook_login stub_ok fresh_world)))
       = Inr 7"
  using model_passed_through [of stub_ok checkpoint_path model_name_on_hub fresh_world]
  by (simp add: raised_def exc_of_def calls_def run_simps stub_simps)


section \<open>Uploading the card\<close>




section \<open>Exceptions\<close>

text \<open>
  Claim C8. There is no handler in the notebook. In every run: every call but the last one
  returned normally, so a call that raises is the last call of the run (nothing is attempted
  after it, and nothing is retried: no call occurs twice); the run ends with exactly what its
  last call did, raising that call's own exception unchanged or completing if it returned;
  and the world is left as that last call left it.
\<close>

theorem failures_propagate:
  "trace (snd (run_with L cp name w)) \<noteq> []
   \<and> list_all (\<lambda>e. exc e = None) (butlast (trace (snd (run_with L cp name w))))
   \<and> raised (run_with L cp name w) = exc (last (trace (snd (run_with L cp name w))))
   \<and> distinct (calls (run_with L cp name w))
   \<and> now (snd (run_with L cp name w)) = post (last (trace (snd (run_with L cp name w))))"
  by (cases rule: run_cases [where L = L and cp = cp and name = name and w = w])
    (simp_all add: calls_def raised_def exc_of_def)

text \<open>The hub unreachable at the tokenizer push: the error comes out as it was raised.\<close>

theorem failures_propagate_witness:
  "raised (run_with stub_offline checkpoint_path model_name_on_hub fresh_world)
     = Some ''ConnectionError''
   \<and> exc (last (trace (snd (run_with stub_offline checkpoint_path model_name_on_hub fresh_world))))
     = Some ''ConnectionError''
   \<and> calls (run_with stub_offline checkpoint_path model_name_on_hub fresh_world) =
       [NotebookLogin,
        ModelFromPretrained ''./results/checkpoint-2000'',
        TokenizerFromPretrained ''distilbert-base-uncased'',
        ModelSavePretrained 7 ''desired-model-name'',
        TokenizerSavePretrained 3 ''desired-model-name'',
        ModelPushToHub 7 ''desired-model-name'',
        TokenizerPushToHub 3 ''desired-model-name'']"
  using failures_propagate [of stub_offline checkpoint_path model_name_on_hub fresh_world]
  by (simp add: raised_def exc_of_def calls_def run_simps stub_simps)

section \<open>Writing the card over an existing file\<close>

text \<open>
  Claim C9. The card is written by opening \<^verbatim>\<open><name>/README.md\<close> in mode \<^verbatim>\<open>w\<close>. From any world,
  when the system refuses neither the open nor the write, the step returns and leaves the
  world as it was except that \<^verbatim>\<open><name>/README.md\<close> now holds exactly the template, whatever
  it held before: every other file, and everything outside the local files, is untouched.
  The two calls of the step are the open in mode \<^verbatim>\<open>w\<close> and the write of the template.
\<close>

theorem model_card_overwrites:
  assumes "open_error L (name @ ''/README.md'') w = None"
    and "write_error L (name @ ''/README.md'') model_card_content
           (w\<lparr>files := (files w)(name @ ''/README.md'' \<mapsto> [])\<rparr>) = None"
  shows "fst (write_model_card L name \<lparr>now = w, trace = tr\<rparr>) = Inr ()
    \<and> now (snd (write_model_card L name \<lparr>now = w, trace = tr\<rparr>)) =
        w\<lparr>files := (files w)(name @ ''/README.md'' \<mapsto> model_card_content)\<rparr>
    \<and> files (now (snd (write_model_card L name \<lparr>now = w, trace = tr\<rparr>))) (name @ ''/README.md'')
        = Some model_card_content
    \<and> (\<forall>q. q \<noteq> name @ ''/README.md'' \<longrightarrow>
          files (now (snd (write_model_card L name \<lparr>now = w, trace = tr\<rparr>))) q = files w q)
    \<and> map invoked (trace (snd (write_model_card L name \<lparr>now = w, trace = tr\<rparr>))) =
        map invoked tr
          @ [Open (name @ ''/README.md'') ''w'',
             FileWrite (name @ ''/README.md'') model_card_content]"
  using assms
  by (simp add: write_model_card_def Let_def then_do_invoke invoke_alt open_w_def file_write_def)

theorem model_card_overwrites_witness:
  "open_error stub_ok (''desired-model-name'' @ ''/README.md'') used_world = None
   \<and> write_error stub_ok (''desired-model-name'' @ ''/README.md'') model_card_content
        (used_world\<lparr>files := (files used_world)(''desired-model-name'' @ ''/README.md'' \<mapsto> [])\<rparr>)
       = None
   \<and> files used_world ''desired-model-name/README.md'' = Some ''old card''
   \<and> files (now (snd (write_model_card stub_ok ''desired-model-name''
                         \<lparr>now = used_world, trace = []\<rparr>))) ''desired-model-name/README.md''
       = Some model_card_content
   \<and> files (now (snd (write_model_card stub_ok ''desired-model-name''
                         \<lparr>now = used_world, trace = []\<rparr>))) ''desired-model-name/config.json''
       = Some ''{}''"
  using model_card_overwrites [of stub_ok "''desired-model-name''" used_world "[]"]
  by (simp add: stub_simps)

text \<open>
  The same step inside a run: when the write has returned, the world right after it is the
  world right after the tokenizer push with the card file replaced.
\<close>

lemma model_card_overwrites_in_run:
  assumes "8 < length (trace (snd (run_with L cp name w)))"
    and "exc (trace (snd (run_with L cp name w)) ! 8) = None"
  shows "invoked (trace (snd (run_with L cp name w)) ! 8) =
           FileWrite (name @ ''/README.md'') model_card_content
    \<and> post (trace (snd (run_with L cp name w)) ! 8) =
        (post (trace (snd (run_with L cp name w)) ! 6))
          \<lparr>files := (files (post (trace (snd (run_with L cp name w)) ! 6)))
             (name @ ''/README.md'' \<mapsto> model_card_content)\<rparr>"
  using assms
  by (cases rule: run_cases [where L = L and cp = cp and name = name and w = w]) simp_all


end
